theory Spec2Isabelle
  imports Main "HOL-Library.Word" "HOL-Library.List_Lexorder"
begin

section \<open>JavaScript values\<close>

text \<open>
  The service is a Cloudflare Worker written in TypeScript (\<^verbatim>\<open>src/index.ts\<close>). Its
  handlers move untyped JavaScript values between three collaborators: the request body,
  the text-generation binding \<^verbatim>\<open>env.AI\<close> and the D1 database binding \<^verbatim>\<open>env.DB\<close>.
  The declared TypeScript types are erased at run time, so the model keeps the values
  dynamically typed.

  A JavaScript string is a sequence of UTF-16 code units.
\<close>

type_synonym jschar = "16 word"
type_synonym jsstring = "jschar list"

definition ch :: "char \<Rightarrow> jschar" where
  "ch c = of_char c"

definition js :: "string \<Rightarrow> jsstring" where
  "js s = map ch s"

text \<open>
  Numbers. A JavaScript number is an IEEE double; the program never computes with
  numbers, it only tests them for zero, prints them and stores them. They are modelled
  as signed decimals: \<open>Dec s ds n\<close> is \<open>(-1)^s * 0.d1 d2 ... dk * 10^n\<close>, the
  representation \<^verbatim>\<open>Number::toString\<close> of ECMAScript is defined on. The digits have
  no leading and no trailing zero; zero has no digit. Rounding to 53 bits and the range
  of the exponent are not modelled.
\<close>

datatype jsnum = Dec (neg: bool) (digits: "nat list") (expo: int)

datatype jsval =
    JUndefined
  | JNull
  | JBool bool
  | JNum jsnum
  | JStr jsstring
  | JArr "jsval list"
  | JObj "(jsstring \<times> jsval) list"

datatype js_error =
    TypeError
  | SyntaxError
  | InferenceError
  | D1_TYPE_ERROR
  | D1_CONSTRAINT

definition strip_trailing_zeros :: "nat list \<Rightarrow> nat list" where
  "strip_trailing_zeros ds = rev (dropWhile (\<lambda>d. d = 0) (rev ds))"

function digits_of_nat :: "nat \<Rightarrow> nat list" where
  "digits_of_nat n = (if n < 10 then [n] else digits_of_nat (n div 10) @ [n mod 10])"
  by pat_completeness auto
termination
  by (relation "measure id") auto

definition jsnum_of_nat :: "nat \<Rightarrow> jsnum" where
  "jsnum_of_nat n =
     (if n = 0 then Dec False [] 0
      else Dec False (strip_trailing_zeros (digits_of_nat n)) (int (length (digits_of_nat n))))"

definition digit_char :: "nat \<Rightarrow> jschar" where
  "digit_char d = of_nat (48 + d)"

text \<open>\<^verbatim>\<open>Number::toString\<close> (radix 10), by the cases of the ECMAScript definition.\<close>

definition show_digits :: "nat list \<Rightarrow> int \<Rightarrow> jsstring" where
  "show_digits ds n =
     (let k = int (length ds) in
      if k \<le> n \<and> n \<le> 21 then map digit_char ds @ replicate (nat (n - k)) (ch CHR ''0'')
      else if 0 < n \<and> n \<le> 21 then
        map digit_char (take (nat n) ds) @ [ch CHR ''.''] @ map digit_char (drop (nat n) ds)
      else if - 6 < n \<and> n \<le> 0 then
        js ''0.'' @ replicate (nat (- n)) (ch CHR ''0'') @ map digit_char ds
      else
        (let e = n - 1;
             sgn = (if e < 0 then ch CHR ''-'' else ch CHR ''+'');
             es = map digit_char (digits_of_nat (nat \<bar>e\<bar>))
         in if k = 1 then map digit_char ds @ [ch CHR ''e'', sgn] @ es
            else map digit_char (take 1 ds) @ [ch CHR ''.''] @ map digit_char (drop 1 ds)
                 @ [ch CHR ''e'', sgn] @ es))"

definition show_number :: "jsnum \<Rightarrow> jsstring" where
  "show_number x =
     (if digits x = [] then js ''0''
      else if neg x then ch CHR ''-'' # show_digits (digits x) (expo x)
      else show_digits (digits x) (expo x))"

text \<open>Truthiness (\<^verbatim>\<open>ToBoolean\<close>), \<^verbatim>\<open>a || b\<close> and \<^verbatim>\<open>!a\<close>.\<close>

fun truthy :: "jsval \<Rightarrow> bool" where
  "truthy JUndefined = False"
| "truthy JNull = False"
| "truthy (JBool b) = b"
| "truthy (JNum x) = (digits x \<noteq> [])"
| "truthy (JStr s) = (s \<noteq> [])"
| "truthy (JArr xs) = True"
| "truthy (JObj kvs) = True"

definition js_or :: "jsval \<Rightarrow> jsval \<Rightarrow> jsval" where
  "js_or a b = (if truthy a then a else b)"

text \<open>
  Property read \<^verbatim>\<open>v.name\<close>. Reading a property of \<^verbatim>\<open>undefined\<close> or \<^verbatim>\<open>null\<close> throws a
  TypeError. The names the program reads (\<^verbatim>\<open>response\<close>, \<^verbatim>\<open>sentiment\<close>, \<^verbatim>\<open>urgency\<close>,
  \<^verbatim>\<open>themes\<close>, \<^verbatim>\<open>summary\<close>, \<^verbatim>\<open>top_themes\<close>, \<^verbatim>\<open>urgent_items\<close>, \<^verbatim>\<open>sentiment_breakdown\<close>,
  \<^verbatim>\<open>source\<close>, \<^verbatim>\<open>content\<close>, \<^verbatim>\<open>author\<close>) are defined on no built-in prototype, so on a
  primitive or an array the read gives \<^verbatim>\<open>undefined\<close>, and on an object it is the own
  property or \<^verbatim>\<open>undefined\<close>.
\<close>

fun js_get :: "jsval \<Rightarrow> jsstring \<Rightarrow> js_error + jsval" where
  "js_get JUndefined k = Inl TypeError"
| "js_get JNull k = Inl TypeError"
| "js_get (JObj kvs) k = Inr (case map_of kvs k of Some v \<Rightarrow> v | None \<Rightarrow> JUndefined)"
| "js_get v k = Inr JUndefined"

section \<open>The regular expression of the two model-calling functions\<close>

text \<open>
  Both \<^verbatim>\<open>analyseFeedback\<close> and \<^verbatim>\<open>handleGenerateDigest\<close> run
  \<^verbatim>\<open>text.match(/\{[\s\S]*\}/)\<close>. The pattern is an opening brace, a greedy star over
  any code unit, and a closing brace. The matcher tries start positions from the left;
  at an opening brace the star first takes the whole rest and gives code units back
  until a closing brace follows. \<open>upto_last_close\<close> is that star with the closing
  brace: the longest prefix of the rest that ends in a closing brace.
\<close>

fun upto_last_close :: "jsstring \<Rightarrow> jsstring option" where
  "upto_last_close [] = None"
| "upto_last_close (c # cs) =
     (case upto_last_close cs of
        Some m \<Rightarrow> Some (c # m)
      | None \<Rightarrow> if c = ch CHR ''}'' then Some [c] else None)"

fun regex_match :: "jsstring \<Rightarrow> jsstring option" where
  "regex_match [] = None"
| "regex_match (c # cs) =
     (if c = ch CHR ''{''
      then (case upto_last_close cs of
              Some m \<Rightarrow> Some (c # m)
            | None \<Rightarrow> regex_match cs)
      else regex_match cs)"

section \<open>\<^verbatim>\<open>JSON.parse\<close> and \<^verbatim>\<open>JSON.stringify\<close>\<close>

text \<open>
  The two built-ins are modelled after the JSON grammar (ECMA-404) and the ECMAScript
  definitions of \<^verbatim>\<open>JSON.parse\<close> and \<^verbatim>\<open>JSON.stringify\<close> (one argument each). The parser
  works on the code units; \<open>None\<close> is the SyntaxError.
\<close>

definition is_ws :: "jschar \<Rightarrow> bool" where
  "is_ws c = (c = 0x20 \<or> c = 0x09 \<or> c = 0x0A \<or> c = 0x0D)"

definition skip_ws :: "jsstring \<Rightarrow> jsstring" where
  "skip_ws s = dropWhile is_ws s"

definition is_digit :: "jschar \<Rightarrow> bool" where
  "is_digit c = (0x30 \<le> c \<and> c \<le> 0x39)"

definition digit_val :: "jschar \<Rightarrow> nat" where
  "digit_val c = unat c - 48"

definition hex_val :: "jschar \<Rightarrow> nat option" where
  "hex_val c =
     (if 0x30 \<le> c \<and> c \<le> 0x39 then Some (unat c - 48)
      else if 0x61 \<le> c \<and> c \<le> 0x66 then Some (unat c - 87)
      else if 0x41 \<le> c \<and> c \<le> 0x46 then Some (unat c - 55)
      else None)"

definition hex4 :: "jschar \<Rightarrow> jschar \<Rightarrow> jschar \<Rightarrow> jschar \<Rightarrow> jschar option" where
  "hex4 h1 h2 h3 h4 =
     (case (hex_val h1, hex_val h2, hex_val h3, hex_val h4) of
        (Some a, Some b, Some c, Some d) \<Rightarrow> Some (of_nat (((a * 16 + b) * 16 + c) * 16 + d))
      | _ \<Rightarrow> None)"

definition simple_escape :: "jschar \<Rightarrow> jschar option" where
  "simple_escape e =
     (if e = ch CHR 0x22 then Some 0x22
      else if e = ch CHR 0x5C then Some 0x5C
      else if e = ch CHR ''/'' then Some 0x2F
      else if e = ch CHR ''b'' then Some 0x08
      else if e = ch CHR ''f'' then Some 0x0C
      else if e = ch CHR ''n'' then Some 0x0A
      else if e = ch CHR ''r'' then Some 0x0D
      else if e = ch CHR ''t'' then Some 0x09
      else None)"

definition cons_fst :: "'a \<Rightarrow> ('a list \<times> 'b) option \<Rightarrow> ('a list \<times> 'b) option" where
  "cons_fst x r = (case r of None \<Rightarrow> None | Some (xs, rest) \<Rightarrow> Some (x # xs, rest))"

text \<open>
  The characters of a string literal after its opening quote, up to and including the
  closing quote; the result is the decoded string and the rest of the input.
\<close>

fun parse_string_chars :: "jsstring \<Rightarrow> (jsstring \<times> jsstring) option" where
  "parse_string_chars [] = None"
| "parse_string_chars (c # cs) =
     (if c = ch CHR 0x22 then Some ([], cs)
      else if c = ch CHR 0x5C then
        (case cs of
           [] \<Rightarrow> None
         | e # cs1 \<Rightarrow>
             if e = ch CHR ''u'' then
               (case cs1 of
                  h1 # h2 # h3 # h4 # cs2 \<Rightarrow>
                    (case hex4 h1 h2 h3 h4 of
                       None \<Rightarrow> None
                     | Some u \<Rightarrow> cons_fst u (parse_string_chars cs2))
                | _ \<Rightarrow> None)
             else
               (case simple_escape e of
                  None \<Rightarrow> None
                | Some u \<Rightarrow> cons_fst u (parse_string_chars cs1)))
      else if c < 0x20 then None
      else cons_fst c (parse_string_chars cs))"

definition int_of_digits :: "nat list \<Rightarrow> int" where
  "int_of_digits ds = foldl (\<lambda>acc d. acc * 10 + int d) 0 ds"

text \<open>
  The value of a number literal with integer digits \<open>ip\<close>, fraction digits \<open>fp\<close> and
  exponent \<open>ex\<close>: \<open>0.(ip fp) * 10^(|ip| + ex)\<close>, brought to the form without leading
  and trailing zeros.
\<close>

definition mk_num :: "bool \<Rightarrow> nat list \<Rightarrow> nat list \<Rightarrow> int \<Rightarrow> jsnum" where
  "mk_num s ip fp ex =
     (let ds = ip @ fp;
          lead = length (takeWhile (\<lambda>d. d = 0) ds);
          sig = strip_trailing_zeros (dropWhile (\<lambda>d. d = 0) ds)
      in if sig = [] then Dec s [] 0
         else Dec s sig (int (length ip) + ex - int lead))"

definition parse_exponent :: "jsstring \<Rightarrow> (int \<times> jsstring) option" where
  "parse_exponent s =
     (case s of
        [] \<Rightarrow> Some (0, s)
      | e # cs \<Rightarrow>
          if e = ch CHR ''e'' \<or> e = ch CHR ''E'' then
            (let (minus, cs1) =
                   (case cs of
                      [] \<Rightarrow> (False, cs)
                    | g # cs' \<Rightarrow>
                        if g = ch CHR ''-'' then (True, cs')
                        else if g = ch CHR ''+'' then (False, cs')
                        else (False, cs));
                 ed = takeWhile is_digit cs1
             in if ed = [] then None
                else Some ((if minus then - int_of_digits (map digit_val ed)
                            else int_of_digits (map digit_val ed)),
                           dropWhile is_digit cs1))
          else Some (0, s))"

definition parse_fraction :: "jsstring \<Rightarrow> (nat list \<times> jsstring) option" where
  "parse_fraction s =
     (case s of
        [] \<Rightarrow> Some ([], s)
      | p # cs \<Rightarrow>
          if p = ch CHR ''.'' then
            (let fd = takeWhile is_digit cs
             in if fd = [] then None else Some (map digit_val fd, dropWhile is_digit cs))
          else Some ([], s))"

definition parse_int_part :: "jsstring \<Rightarrow> (nat list \<times> jsstring) option" where
  "parse_int_part s =
     (case s of
        [] \<Rightarrow> None
      | c # cs \<Rightarrow>
          if c = ch CHR ''0'' then Some ([0], cs)
          else if is_digit c then Some (map digit_val (takeWhile is_digit s), dropWhile is_digit s)
          else None)"

definition parse_number :: "jsstring \<Rightarrow> (jsnum \<times> jsstring) option" where
  "parse_number s =
     (let (sg, s1) = (case s of
                        [] \<Rightarrow> (False, s)
                      | c # cs \<Rightarrow> if c = ch CHR ''-'' then (True, cs) else (False, s))
      in case parse_int_part s1 of
           None \<Rightarrow> None
         | Some (ip, s2) \<Rightarrow>
             (case parse_fraction s2 of
                None \<Rightarrow> None
              | Some (fp, s3) \<Rightarrow>
                  (case parse_exponent s3 of
                     None \<Rightarrow> None
                   | Some (ex, s4) \<Rightarrow> Some (mk_num sg ip fp ex, s4))))"

definition parse_literal :: "jsstring \<Rightarrow> jsval \<Rightarrow> jsstring \<Rightarrow> (jsval \<times> jsstring) option" where
  "parse_literal word v s =
     (if take (length word) s = word then Some (v, drop (length word) s) else None)"

text \<open>
  Own properties of an object in the order JavaScript enumerates them: array indices
  (canonical numerals below \<open>2^32 - 1\<close>) ascending first, then the other keys in the
  order of their creation. Defining an existing key replaces its value in place.
\<close>

definition array_index :: "jsstring \<Rightarrow> int option" where
  "array_index k =
     (if k = [] \<or> \<not> list_all is_digit k \<or> (hd k = ch CHR ''0'' \<and> length k \<noteq> 1) \<or> 10 < length k
      then None
      else (let i = int_of_digits (map digit_val k)
            in if i < 4294967295 then Some i else None))"

fun insert_index :: "int \<Rightarrow> jsstring \<Rightarrow> jsval \<Rightarrow> (jsstring \<times> jsval) list
    \<Rightarrow> (jsstring \<times> jsval) list" where
  "insert_index i k v [] = [(k, v)]"
| "insert_index i k v ((k', v') # kvs) =
     (case array_index k' of
        None \<Rightarrow> (k, v) # (k', v') # kvs
      | Some j \<Rightarrow> if i < j then (k, v) # (k', v') # kvs
                  else (k', v') # insert_index i k v kvs)"

definition obj_put :: "(jsstring \<times> jsval) list \<Rightarrow> jsstring \<times> jsval \<Rightarrow> (jsstring \<times> jsval) list" where
  "obj_put kvs kv =
     (case kv of (k, v) \<Rightarrow>
        if k \<in> fst ` set kvs then map (\<lambda>(k', v'). if k' = k then (k', v) else (k', v')) kvs
        else (case array_index k of
                None \<Rightarrow> kvs @ [(k, v)]
              | Some i \<Rightarrow> insert_index i k v kvs))"

definition build_object :: "(jsstring \<times> jsval) list \<Rightarrow> jsval" where
  "build_object members = JObj (foldl obj_put [] members)"

text \<open>
  The value grammar. The first argument bounds the number of nested calls. An opening
  bracket or brace takes two calls and every further element or member one, and a
  well-formed text has a closing bracket or brace for each opening one, so the length
  of the text (plus one) is enough, and \<open>json_parse\<close> starts with that. A text that
  exhausts the bound is not well formed and is rejected like any other.
\<close>

fun parse_value :: "nat \<Rightarrow> jsstring \<Rightarrow> (jsval \<times> jsstring) option"
  and parse_elements :: "nat \<Rightarrow> jsstring \<Rightarrow> (jsval list \<times> jsstring) option"
  and parse_members :: "nat \<Rightarrow> jsstring \<Rightarrow> ((jsstring \<times> jsval) list \<times> jsstring) option"
where
  "parse_value 0 s = None"
| "parse_value (Suc n) s =
     (case skip_ws s of
        [] \<Rightarrow> None
      | c # cs \<Rightarrow>
          if c = ch CHR ''{'' then
            (case skip_ws cs of
               [] \<Rightarrow> None
             | d # ds \<Rightarrow>
                 if d = ch CHR ''}'' then Some (JObj [], ds)
                 else (case parse_members n cs of
                         None \<Rightarrow> None
                       | Some (ms, r) \<Rightarrow> Some (build_object ms, r)))
          else if c = ch CHR ''['' then
            (case skip_ws cs of
               [] \<Rightarrow> None
             | d # ds \<Rightarrow>
                 if d = ch CHR '']'' then Some (JArr [], ds)
                 else (case parse_elements n cs of
                         None \<Rightarrow> None
                       | Some (vs, r) \<Rightarrow> Some (JArr vs, r)))
          else if c = ch CHR 0x22 then
            (case parse_string_chars cs of
               None \<Rightarrow> None
             | Some (str, r) \<Rightarrow> Some (JStr str, r))
          else if c = ch CHR ''t'' then parse_literal (js ''true'') (JBool True) (c # cs)
          else if c = ch CHR ''f'' then parse_literal (js ''false'') (JBool False) (c # cs)
          else if c = ch CHR ''n'' then parse_literal (js ''null'') JNull (c # cs)
          else (case parse_number (c # cs) of
                  None \<Rightarrow> None
                | Some (x, r) \<Rightarrow> Some (JNum x, r)))"
| "parse_elements 0 s = None"
| "parse_elements (Suc n) s =
     (case parse_value n s of
        None \<Rightarrow> None
      | Some (v, r) \<Rightarrow>
          (case skip_ws r of
             [] \<Rightarrow> None
           | c # cs \<Rightarrow>
               if c = ch CHR '','' then cons_fst v (parse_elements n cs)
               else if c = ch CHR '']'' then Some ([v], cs)
               else None))"
| "parse_members 0 s = None"
| "parse_members (Suc n) s =
     (case skip_ws s of
        [] \<Rightarrow> None
      | q # s1 \<Rightarrow>
          if q \<noteq> ch CHR 0x22 then None
          else (case parse_string_chars s1 of
                  None \<Rightarrow> None
                | Some (k, s2) \<Rightarrow>
                    (case skip_ws s2 of
                       [] \<Rightarrow> None
                     | p # s3 \<Rightarrow>
                         if p \<noteq> ch CHR '':'' then None
                         else (case parse_value n s3 of
                                 None \<Rightarrow> None
                               | Some (v, s4) \<Rightarrow>
                                   (case skip_ws s4 of
                                      [] \<Rightarrow> None
                                    | c # s5 \<Rightarrow>
                                        if c = ch CHR '','' then cons_fst (k, v) (parse_members n s5)
                                        else if c = ch CHR ''}'' then Some ([(k, v)], s5)
                                        else None)))))"

definition json_parse :: "jsstring \<Rightarrow> js_error + jsval" where
  "json_parse text =
     (case parse_value (Suc (length text)) text of
        None \<Rightarrow> Inl SyntaxError
      | Some (v, r) \<Rightarrow> if skip_ws r = [] then Inr v else Inl SyntaxError)"

text \<open>
  \<^verbatim>\<open>JSON.stringify\<close>: \<^verbatim>\<open>QuoteJSONString\<close> escapes the quote, the backslash, the control
  characters and lone surrogates; a surrogate pair is copied.
\<close>

definition hex_char :: "nat \<Rightarrow> jschar" where
  "hex_char d = (if d < 10 then of_nat (48 + d) else of_nat (87 + d))"

definition unicode_escape :: "jschar \<Rightarrow> jsstring" where
  "unicode_escape c =
     (let n = unat c
      in [0x5C, 0x75, hex_char (n div 4096), hex_char (n div 256 mod 16),
          hex_char (n div 16 mod 16), hex_char (n mod 16)])"

definition is_high_surrogate :: "jschar \<Rightarrow> bool" where
  "is_high_surrogate c = (0xD800 \<le> c \<and> c \<le> 0xDBFF)"

definition is_low_surrogate :: "jschar \<Rightarrow> bool" where
  "is_low_surrogate c = (0xDC00 \<le> c \<and> c \<le> 0xDFFF)"

fun quote_chars :: "jsstring \<Rightarrow> jsstring" where
  "quote_chars [] = []"
| "quote_chars (c # cs) =
     (if c = 0x08 then js [CHR 0x5C, CHR ''b''] @ quote_chars cs
      else if c = 0x09 then js [CHR 0x5C, CHR ''t''] @ quote_chars cs
      else if c = 0x0A then js [CHR 0x5C, CHR ''n''] @ quote_chars cs
      else if c = 0x0C then js [CHR 0x5C, CHR ''f''] @ quote_chars cs
      else if c = 0x0D then js [CHR 0x5C, CHR ''r''] @ quote_chars cs
      else if c = 0x22 then js [CHR 0x5C, CHR 0x22] @ quote_chars cs
      else if c = 0x5C then js [CHR 0x5C, CHR 0x5C] @ quote_chars cs
      else if c < 0x20 then unicode_escape c @ quote_chars cs
      else if is_high_surrogate c then
        (case cs of
           [] \<Rightarrow> unicode_escape c
         | d # ds \<Rightarrow>
             if is_low_surrogate d then c # d # quote_chars ds
             else unicode_escape c @ quote_chars cs)
      else if is_low_surrogate c then unicode_escape c @ quote_chars cs
      else c # quote_chars cs)"

definition quote_json_string :: "jsstring \<Rightarrow> jsstring" where
  "quote_json_string s = ch CHR 0x22 # quote_chars s @ [ch CHR 0x22]"

fun join_with :: "jsstring \<Rightarrow> jsstring list \<Rightarrow> jsstring" where
  "join_with sep [] = []"
| "join_with sep [x] = x"
| "join_with sep (x # y # ys) = x @ sep @ join_with sep (y # ys)"

text \<open>
  \<open>stringify v = None\<close> stands for the result \<^verbatim>\<open>undefined\<close>. In an array an
  \<^verbatim>\<open>undefined\<close> element is written \<^verbatim>\<open>null\<close>; in an object a property whose value is
  \<^verbatim>\<open>undefined\<close> is left out. The values of this model hold no function, so no
  \<^verbatim>\<open>toJSON\<close> is ever called.
\<close>

fun stringify :: "jsval \<Rightarrow> jsstring option"
  and stringify_elems :: "jsval list \<Rightarrow> jsstring list"
  and stringify_members :: "(jsstring \<times> jsval) list \<Rightarrow> jsstring list"
where
  "stringify JUndefined = None"
| "stringify JNull = Some (js ''null'')"
| "stringify (JBool b) = Some (if b then js ''true'' else js ''false'')"
| "stringify (JNum x) = Some (show_number x)"
| "stringify (JStr str) = Some (quote_json_string str)"
| "stringify (JArr xs) = Some (js ''['' @ join_with (js '','') (stringify_elems xs) @ js '']'')"
| "stringify (JObj kvs) = Some (js ''{'' @ join_with (js '','') (stringify_members kvs) @ js ''}'')"
| "stringify_elems [] = []"
| "stringify_elems (v # vs) =
     (case stringify v of None \<Rightarrow> js ''null'' | Some t \<Rightarrow> t) # stringify_elems vs"
| "stringify_members [] = []"
| "stringify_members ((k, v) # kvs) =
     (case stringify v of
        None \<Rightarrow> stringify_members kvs
      | Some t \<Rightarrow> (quote_json_string k @ js '':'' @ t) # stringify_members kvs)"

definition json_stringify :: "jsval \<Rightarrow> jsval" where
  "json_stringify v = (case stringify v of None \<Rightarrow> JUndefined | Some t \<Rightarrow> JStr t)"

text \<open>
  \<^verbatim>\<open>ToString\<close>, as a template literal applies it. An array is joined with commas
  (\<^verbatim>\<open>undefined\<close> and \<^verbatim>\<open>null\<close> elements give the empty string). A plain object gives
  \<^verbatim>\<open>[object Object]\<close>, unless it has an own property \<^verbatim>\<open>toString\<close>: a value that came
  from JSON is not callable, the inherited \<^verbatim>\<open>valueOf\<close> returns the object itself, and
  the conversion throws a TypeError.
\<close>

fun js_to_string :: "jsval \<Rightarrow> js_error + jsstring"
  and to_string_elems :: "jsval list \<Rightarrow> js_error + jsstring list"
where
  "js_to_string JUndefined = Inr (js ''undefined'')"
| "js_to_string JNull = Inr (js ''null'')"
| "js_to_string (JBool b) = Inr (if b then js ''true'' else js ''false'')"
| "js_to_string (JNum x) = Inr (show_number x)"
| "js_to_string (JStr str) = Inr str"
| "js_to_string (JArr xs) =
     (case to_string_elems xs of Inl e \<Rightarrow> Inl e | Inr ts \<Rightarrow> Inr (join_with (js '','') ts))"
| "js_to_string (JObj kvs) =
     (if js ''toString'' \<in> fst ` set kvs then Inl TypeError
      else Inr (js ''[object Object]''))"
| "to_string_elems [] = Inr []"
| "to_string_elems (v # vs) =
     (case (if v = JUndefined \<or> v = JNull then Inr [] else js_to_string v) of
        Inl e \<Rightarrow> Inl e
      | Inr t \<Rightarrow> (case to_string_elems vs of Inl e \<Rightarrow> Inl e | Inr ts \<Rightarrow> Inr (t # ts)))"


section \<open>The collaborators: the model binding and the D1 database\<close>

text \<open>
  \<^verbatim>\<open>env.AI.run(model, {prompt, max_tokens})\<close> is an oracle: it rejects with an error
  or resolves to some value. The requests made are logged in the state, so that "no
  model call is made" can be stated.
\<close>

record ai_request =
  model :: jsstring
  prompt :: jsstring
  max_tokens :: nat

record env =
  AI :: "ai_request \<Rightarrow> js_error + jsval"
  CURRENT_TIMESTAMP :: jsstring

text \<open>
  The two tables of \<^verbatim>\<open>handleInitDb\<close>, each a list of rows in rowid order (the order
  of insertion). A cell holds the value that was bound. The \<^verbatim>\<open>created_at\<close> columns
  hold text, the value of \<^verbatim>\<open>CURRENT_TIMESTAMP\<close> or the ISO string the seed binds;
  SQLite compares such text character by character, which is the lexicographic order
  of the code units. \<^verbatim>\<open>feedback_count\<close> is always bound from the length of an array.
  The conversions of SQLite's column affinity are not modelled.
\<close>

record feedback_row =
  fb_id :: nat
  fb_source :: jsval
  fb_content :: jsval
  fb_author :: jsval
  fb_sentiment :: jsval
  fb_urgency :: jsval
  fb_themes :: jsval
  fb_created_at :: jsstring
  fb_processed_at :: jsval

record digest_row =
  dg_id :: nat
  dg_summary :: jsval
  dg_top_themes :: jsval
  dg_urgent_items :: jsval
  dg_sentiment_breakdown :: jsval
  dg_feedback_count :: nat
  dg_created_at :: jsstring

record world =
  feedback :: "feedback_row list"
  digests :: "digest_row list"
  ai_calls :: "ai_request list"

text \<open>
  \<^verbatim>\<open>D1PreparedStatement.bind\<close> checks the type of every argument: a string or a number
  is taken as it is, a boolean becomes 1 or 0, \<^verbatim>\<open>null\<close> stays, an array whose elements
  are all numbers from 0 up to 256 (exclusive) is taken as a blob; for everything else,
  \<^verbatim>\<open>undefined\<close> and plain objects among them, it throws a \<^verbatim>\<open>D1_TYPE_ERROR\<close>.
\<close>

fun is_byte :: "jsval \<Rightarrow> bool" where
  "is_byte (JNum x) =
     (digits x = [] \<or> (\<not> neg x \<and> (expo x \<le> 2 \<or> (expo x = 3 \<and> digits x < [2, 5, 6]))))"
| "is_byte v = False"

fun d1_bind_value :: "jsval \<Rightarrow> js_error + jsval" where
  "d1_bind_value (JStr str) = Inr (JStr str)"
| "d1_bind_value (JNum x) = Inr (JNum x)"
| "d1_bind_value (JBool b) = Inr (JNum (if b then Dec False [1] 1 else Dec False [] 0))"
| "d1_bind_value JNull = Inr JNull"
| "d1_bind_value (JArr xs) = (if list_all is_byte xs then Inr (JArr xs) else Inl D1_TYPE_ERROR)"
| "d1_bind_value JUndefined = Inl D1_TYPE_ERROR"
| "d1_bind_value (JObj kvs) = Inl D1_TYPE_ERROR"

fun d1_bind :: "jsval list \<Rightarrow> js_error + jsval list" where
  "d1_bind [] = Inr []"
| "d1_bind (v # vs) =
     (case d1_bind_value v of
        Inl e \<Rightarrow> Inl e
      | Inr b \<Rightarrow> (case d1_bind vs of Inl e \<Rightarrow> Inl e | Inr bs \<Rightarrow> Inr (b # bs)))"

text \<open>\<^verbatim>\<open>INTEGER PRIMARY KEY AUTOINCREMENT\<close>: one more than the largest rowid.\<close>

definition next_id :: "nat list \<Rightarrow> nat" where
  "next_id ids = Suc (foldr max ids 0)"

text \<open>
  \<^verbatim>\<open>INSERT INTO feedback (source, content, author, sentiment, urgency, themes,
  processed_at) VALUES (?, ?, ?, ?, ?, ?, CURRENT_TIMESTAMP)\<close>, with the \<^verbatim>\<open>NOT NULL\<close>
  constraints on \<^verbatim>\<open>source\<close> and \<^verbatim>\<open>content\<close> and the default of \<^verbatim>\<open>created_at\<close>.
  The result is \<^verbatim>\<open>meta.last_row_id\<close>.
\<close>

definition insert_feedback :: "env \<Rightarrow> jsval list \<Rightarrow> world \<Rightarrow> (js_error + nat) \<times> world" where
  "insert_feedback e args w =
     (case d1_bind args of
        Inl err \<Rightarrow> (Inl err, w)
      | Inr bs \<Rightarrow>
          (case bs of
             [src, cont, auth, sent, urg, thm] \<Rightarrow>
               if src = JNull \<or> cont = JNull then (Inl D1_CONSTRAINT, w)
               else
                 (let i = next_id (map fb_id (feedback w));
                      row = \<lparr>fb_id = i, fb_source = src, fb_content = cont, fb_author = auth,
                             fb_sentiment = sent, fb_urgency = urg, fb_themes = thm,
                             fb_created_at = CURRENT_TIMESTAMP e,
                             fb_processed_at = JStr (CURRENT_TIMESTAMP e)\<rparr>
                  in (Inr i, w\<lparr>feedback := feedback w @ [row]\<rparr>))
           | _ \<Rightarrow> (Inl D1_TYPE_ERROR, w)))"

text \<open>
  \<^verbatim>\<open>INSERT INTO digests (summary, top_themes, urgent_items, sentiment_breakdown,
  feedback_count) VALUES (?, ?, ?, ?, ?)\<close>, with \<^verbatim>\<open>summary TEXT NOT NULL\<close>.
\<close>

definition insert_digest :: "env \<Rightarrow> jsval list \<Rightarrow> nat \<Rightarrow> world \<Rightarrow> (js_error + nat) \<times> world" where
  "insert_digest e args cnt w =
     (case d1_bind args of
        Inl err \<Rightarrow> (Inl err, w)
      | Inr bs \<Rightarrow>
          (case bs of
             [summ, tt, ui, sb] \<Rightarrow>
               if summ = JNull then (Inl D1_CONSTRAINT, w)
               else
                 (let i = next_id (map dg_id (digests w));
                      row = \<lparr>dg_id = i, dg_summary = summ, dg_top_themes = tt,
                             dg_urgent_items = ui, dg_sentiment_breakdown = sb,
                             dg_feedback_count = cnt,
                             dg_created_at = CURRENT_TIMESTAMP e\<rparr>
                  in (Inr i, w\<lparr>digests := digests w @ [row]\<rparr>))
           | _ \<Rightarrow> (Inl D1_TYPE_ERROR, w)))"

text \<open>
  \<^verbatim>\<open>ORDER BY created_at DESC\<close>. The statement names no second sort key; rows with equal
  \<^verbatim>\<open>created_at\<close> come out in rowid order, as SQLite's sorter leaves them.
\<close>

definition order_by_desc :: "('a \<Rightarrow> jsstring) \<Rightarrow> 'a list \<Rightarrow> 'a list" where
  "order_by_desc key rows = rev (sort_key key (rev rows))"

text \<open>\<^verbatim>\<open>SELECT * FROM feedback ORDER BY created_at DESC LIMIT 50\<close>\<close>

definition select_recent_feedback :: "world \<Rightarrow> feedback_row list" where
  "select_recent_feedback w = take 50 (order_by_desc fb_created_at (feedback w))"



section \<open>The handlers\<close>

record request =
  json :: "js_error + jsval"

text \<open>
  A \<^verbatim>\<open>Response\<close>: its status (200 when the source gives none) and the value whose
  \<^verbatim>\<open>JSON.stringify\<close> text is the body.
\<close>

record response =
  status :: nat
  body :: jsval

definition lines :: "jsstring list \<Rightarrow> jsstring" where
  "lines ls = join_with [0x0A] ls"

subsection \<open>\<^verbatim>\<open>analyseFeedback\<close>\<close>

record analysis =
  sentiment :: jsval
  urgency :: jsval
  themes :: jsval

definition analysis_object :: "analysis \<Rightarrow> jsval" where
  "analysis_object a =
     JObj [(js ''sentiment'', sentiment a), (js ''urgency'', urgency a), (js ''themes'', themes a)]"

definition fallback_analysis :: analysis where
  "fallback_analysis =
     \<lparr>sentiment = JStr (js ''neutral''), urgency = JStr (js ''medium''),
      themes = JStr (js ''general'')\<rparr>"

definition llama :: jsstring where
  "llama = js ''@cf/meta/llama-3.1-8b-instruct''"

definition analyse_prompt :: "jsstring \<Rightarrow> jsstring" where
  \<open>analyse_prompt content = lines
     [js ''Analyse this customer feedback and respond with ONLY a JSON object (no markdown, no explanation):'',
      js ''{'',
      js ''  "sentiment": "positive" or "negative" or "neutral",'',
      js ''  "urgency": "high" or "medium" or "low",'',
      js ''  "themes": "comma-separated list of 1-3 themes like: performance, billing, documentation, feature-request, bug, praise"'',
      js ''}'',
      [],
      js ''Feedback: "'' @ content @ js ''"'']\<close>

text \<open>
  Both \<^verbatim>\<open>try\<close> blocks treat the answer of the model with the same three statements:
  \<^verbatim>\<open>const text = (response as { response?: string }).response || ''\<close>,
  \<^verbatim>\<open>const jsonMatch = text.match(/\{[\s\S]*\}/)\<close> and, under \<^verbatim>\<open>if (jsonMatch)\<close>,
  \<^verbatim>\<open>JSON.parse(jsonMatch[0])\<close>. \<open>parse_answer\<close> is these statements: \<open>Inl\<close> is an
  exception (it goes to the \<^verbatim>\<open>catch\<close>), \<open>Inr None\<close> is no match, \<open>Inr (Some v)\<close> the
  parsed value. \<^verbatim>\<open>text.match\<close> exists on strings only: on any other truthy value the
  call throws.
\<close>

definition parse_answer :: "js_error + jsval \<Rightarrow> js_error + jsval option" where
  "parse_answer answer =
     (case answer of
        Inl err \<Rightarrow> Inl err
      | Inr resp \<Rightarrow>
          (case js_get resp (js ''response'') of
             Inl err \<Rightarrow> Inl err
           | Inr r \<Rightarrow>
               (case js_or r (JStr []) of
                  JStr text \<Rightarrow>
                    (case regex_match text of
                       None \<Rightarrow> Inr None
                     | Some jsonMatch \<Rightarrow>
                         (case json_parse jsonMatch of
                            Inl err \<Rightarrow> Inl err
                          | Inr parsed \<Rightarrow> Inr (Some parsed)))
                | _ \<Rightarrow> Inl TypeError)))"

text \<open>
  The \<^verbatim>\<open>try\<close> block of \<^verbatim>\<open>analyseFeedback\<close>: \<open>Inr (Some a)\<close> is the \<^verbatim>\<open>return\<close>
  inside the \<^verbatim>\<open>if (jsonMatch)\<close>, \<open>Inr None\<close> the end of the block. A property read
  throws on \<^verbatim>\<open>undefined\<close> and \<^verbatim>\<open>null\<close> only, so the three reads of \<^verbatim>\<open>parsed\<close>
  succeed or fail together.
\<close>

definition analyse_try :: "js_error + jsval \<Rightarrow> js_error + analysis option" where
  "analyse_try answer =
     (case parse_answer answer of
        Inl err \<Rightarrow> Inl err
      | Inr None \<Rightarrow> Inr None
      | Inr (Some parsed) \<Rightarrow>
          (case (js_get parsed (js ''sentiment''), js_get parsed (js ''urgency''),
                 js_get parsed (js ''themes'')) of
             (Inr s, Inr u, Inr t) \<Rightarrow>
               Inr (Some \<lparr>sentiment = js_or s (JStr (js ''neutral'')),
                          urgency = js_or u (JStr (js ''medium'')),
                          themes = js_or t (JStr (js ''general''))\<rparr>)
           | _ \<Rightarrow> Inl TypeError))"

definition analyse_request :: "jsstring \<Rightarrow> ai_request" where
  "analyse_request content = \<lparr>model = llama, prompt = analyse_prompt content, max_tokens = 150\<rparr>"

text \<open>
  The prompt is built by a template literal before the \<^verbatim>\<open>try\<close>; the parameter is
  declared a string, but the caller passes whatever the request body holds. The
  \<^verbatim>\<open>catch\<close> only logs, and the function goes on to the fallback.
\<close>

definition analyseFeedback :: "env \<Rightarrow> jsval \<Rightarrow> world \<Rightarrow> (js_error + analysis) \<times> world" where
  "analyseFeedback e content w =
     (case js_to_string content of
        Inl err \<Rightarrow> (Inl err, w)
      | Inr c \<Rightarrow>
          (let req = analyse_request c;
               w1 = w\<lparr>ai_calls := ai_calls w @ [req]\<rparr>
           in case analyse_try (AI e req) of
                Inr (Some a) \<Rightarrow> (Inr a, w1)
              | Inr None \<Rightarrow> (Inr fallback_analysis, w1)
              | Inl err \<Rightarrow> (Inr fallback_analysis, w1)))"

subsection \<open>\<^verbatim>\<open>handleAddFeedback\<close>\<close>

text \<open>
  \<^verbatim>\<open>request.json()\<close> rejects on a body that is not JSON. The reads of \<^verbatim>\<open>body.source\<close>,
  \<^verbatim>\<open>body.content\<close> and \<^verbatim>\<open>body.author\<close> throw only when the body is \<^verbatim>\<open>null\<close>, all
  three alike.
\<close>

definition handleAddFeedback :: "request \<Rightarrow> env \<Rightarrow> world \<Rightarrow> (js_error + response) \<times> world" where
  "handleAddFeedback req e w =
     (case json req of
        Inl err \<Rightarrow> (Inl err, w)
      | Inr bdy \<Rightarrow>
          (case (js_get bdy (js ''source''), js_get bdy (js ''content''),
                 js_get bdy (js ''author'')) of
             (Inr src, Inr cont, Inr auth) \<Rightarrow>
               if \<not> truthy src \<or> \<not> truthy cont then
                 (Inr \<lparr>status = 400,
                       body = JObj [(js ''error'', JStr (js ''source and content are required''))]\<rparr>,
                  w)
               else
                 (case analyseFeedback e cont w of
                    (Inl err, w1) \<Rightarrow> (Inl err, w1)
                  | (Inr a, w1) \<Rightarrow>
                      (case insert_feedback e
                              [src, cont, js_or auth JNull, sentiment a, urgency a, themes a] w1 of
                         (Inl err, w2) \<Rightarrow> (Inl err, w2)
                       | (Inr i, w2) \<Rightarrow>
                           (Inr \<lparr>status = 200,
                                 body = JObj [(js ''success'', JBool True),
                                              (js ''id'', JNum (jsnum_of_nat i)),
                                              (js ''analysis'', analysis_object a)]\<rparr>,
                            w2)))
           | _ \<Rightarrow> (Inl TypeError, w)))"

subsection \<open>\<^verbatim>\<open>handleGenerateDigest\<close>\<close>

definition feedback_line :: "feedback_row \<Rightarrow> js_error + jsstring" where
  "feedback_line f =
     (case (js_to_string (fb_source f), js_to_string (fb_sentiment f),
            js_to_string (fb_urgency f), js_to_string (fb_content f)) of
        (Inr so, Inr se, Inr ur, Inr co) \<Rightarrow>
          Inr (js ''['' @ so @ js ''] ('' @ se @ js '', '' @ ur @ js '' urgency): '' @ co)
      | _ \<Rightarrow> Inl TypeError)"

fun feedback_lines :: "feedback_row list \<Rightarrow> js_error + jsstring list" where
  "feedback_lines [] = Inr []"
| "feedback_lines (f # fs) =
     (case feedback_line f of
        Inl err \<Rightarrow> Inl err
      | Inr l \<Rightarrow> (case feedback_lines fs of Inl err \<Rightarrow> Inl err | Inr ls \<Rightarrow> Inr (l # ls)))"

definition digest_prompt :: "jsstring \<Rightarrow> jsstring" where
  \<open>digest_prompt feedbackSummary = lines
     [js ''You are a product manager assistant. Analyse this customer feedback and create a daily digest.'',
      [],
      js ''FEEDBACK:'',
      feedbackSummary,
      [],
      js ''Create a digest with these sections. Respond with ONLY a JSON object:'',
      js ''{'',
      js ''  "summary": "2-3 sentence executive summary of today'' @ [0x27] @ js ''s feedback",'',
      js ''  "top_themes": ["theme1: count and brief description", "theme2: count and brief description", "theme3: count and brief description"],'',
      js ''  "urgent_items": ["brief description of urgent item 1", "brief description of urgent item 2"],'',
      js ''  "sentiment_breakdown": {"positive": number, "neutral": number, "negative": number},'',
      js ''  "recommendations": ["actionable recommendation 1", "actionable recommendation 2"]'',
      js ''}'']\<close>

definition default_digest :: jsval where
  "default_digest =
     JObj [(js ''summary'', JStr (js ''Unable to generate summary'')),
           (js ''top_themes'', JArr []),
           (js ''urgent_items'', JArr []),
           (js ''sentiment_breakdown'',
              JObj [(js ''positive'', JNum (Dec False [] 0)), (js ''neutral'', JNum (Dec False [] 0)),
                    (js ''negative'', JNum (Dec False [] 0))]),
           (js ''recommendations'', JArr [])]"

text \<open>
  The \<^verbatim>\<open>try\<close> block of the digest assigns \<^verbatim>\<open>digestData = JSON.parse(jsonMatch[0])\<close>;
  without a match, and after an exception, \<^verbatim>\<open>digestData\<close> keeps its initial value.
\<close>

definition digestData_of :: "js_error + jsval \<Rightarrow> jsval" where
  "digestData_of answer =
     (case parse_answer answer of
        Inr (Some parsed) \<Rightarrow> parsed
      | Inr None \<Rightarrow> default_digest
      | Inl err \<Rightarrow> default_digest)"

definition digest_request :: "feedback_row list \<Rightarrow> js_error + ai_request" where
  "digest_request results =
     (case feedback_lines results of
        Inl err \<Rightarrow> Inl err
      | Inr ls \<Rightarrow> Inr \<lparr>model = llama, prompt = digest_prompt (lines ls), max_tokens = 800\<rparr>)"

definition handleGenerateDigest :: "env \<Rightarrow> world \<Rightarrow> (js_error + response) \<times> world" where
  "handleGenerateDigest e w =
     (let results = select_recent_feedback w in
      if length results = 0 then
        (Inr \<lparr>status = 400, body = JObj [(js ''error'', JStr (js ''No feedback to analyse''))]\<rparr>, w)
      else
        (case digest_request results of
           Inl err \<Rightarrow> (Inl err, w)
         | Inr req \<Rightarrow>
             (let w1 = w\<lparr>ai_calls := ai_calls w @ [req]\<rparr>;
                  digestData = digestData_of (AI e req)
              in case (js_get digestData (js ''summary''), js_get digestData (js ''top_themes''),
                       js_get digestData (js ''urgent_items''),
                       js_get digestData (js ''sentiment_breakdown'')) of
                   (Inr summ, Inr tt, Inr ui, Inr sb) \<Rightarrow>
                     (case insert_digest e
                             [summ, json_stringify tt, json_stringify ui, json_stringify sb]
                             (length results) w1 of
                        (Inl err, w2) \<Rightarrow> (Inl err, w2)
                      | (Inr i, w2) \<Rightarrow>
                          (Inr \<lparr>status = 200,
                                body = JObj [(js ''success'', JBool True),
                                             (js ''digest'', digestData),
                                             (js ''feedback_count'',
                                                JNum (jsnum_of_nat (length results)))]\<rparr>,
                           w2))
                 | _ \<Rightarrow> (Inl TypeError, w1))))"

subsection \<open>\<^verbatim>\<open>handleGetDigest\<close>\<close>



text \<open>
  The \<^verbatim>\<open>try\<close>/\<^verbatim>\<open>catch\<close> of \<^verbatim>\<open>fetch\<close> around every handler: an exception becomes the
  status 500 (the body also carries the text of the error, which is left out here).
\<close>

definition fetch_catch :: "(js_error + response) \<times> world \<Rightarrow> response \<times> world" where
  "fetch_catch r =
     (case r of
        (Inl err, w) \<Rightarrow>
          (\<lparr>status = 500, body = JObj [(js ''error'', JStr (js ''Internal Server Error''))]\<rparr>, w)
      | (Inr resp, w) \<Rightarrow> (resp, w))"

section \<open>Notions used to state the properties\<close>


text \<open>The value of the property \<open>k\<close> of an object with the properties \<open>kvs\<close>.\<close>

definition property :: "(jsstring \<times> jsval) list \<Rightarrow> jsstring \<Rightarrow> jsval" where
  "property kvs k = (case map_of kvs k of Some v \<Rightarrow> v | None \<Rightarrow> JUndefined)"

text \<open>The values \<^verbatim>\<open>bind\<close> accepts.\<close>

definition bindable :: "jsval \<Rightarrow> bool" where
  "bindable v = (case d1_bind_value v of Inl err \<Rightarrow> False | Inr b \<Rightarrow> True)"

text \<open>
  Concrete collaborators for the examples: an empty database, a model that answers
  every request with a given text, a model whose call fails, and a submission with a
  source and a content.
\<close>

definition empty_world :: world where
  "empty_world = \<lparr>feedback = [], digests = [], ai_calls = []\<rparr>"

definition answering :: "jsstring \<Rightarrow> env" where
  "answering t =
     \<lparr>AI = (\<lambda>r. Inr (JObj [(js ''response'', JStr t)])),
      CURRENT_TIMESTAMP = js ''2026-01-01 10:00:00''\<rparr>"

definition rejecting :: env where
  "rejecting = \<lparr>AI = (\<lambda>r. Inl InferenceError), CURRENT_TIMESTAMP = js ''2026-01-01 10:00:00''\<rparr>"

definition submission :: "jsstring \<Rightarrow> jsstring \<Rightarrow> request" where
  "submission s c = \<lparr>json = Inr (JObj [(js ''source'', JStr s), (js ''content'', JStr c)])\<rparr>"

text \<open>
  The values a cell can hold: what \<^verbatim>\<open>bind\<close> lets through. A feedback row is well
  formed when the four columns the digest prompt prints hold such values.
\<close>

fun storable :: "jsval \<Rightarrow> bool" where
  "storable JNull = True"
| "storable (JNum x) = True"
| "storable (JStr s) = True"
| "storable (JArr xs) = list_all is_byte xs"
| "storable v = False"

definition feedback_row_ok :: "feedback_row \<Rightarrow> bool" where
  "feedback_row_ok f =
     (storable (fb_source f) \<and> storable (fb_sentiment f) \<and> storable (fb_urgency f) \<and>
      storable (fb_content f))"

text \<open>A database with one feedback row, as \<^verbatim>\<open>handleAddFeedback\<close> leaves it.\<close>

definition one_feedback_world :: world where
  "one_feedback_world =
     \<lparr>feedback =
        [\<lparr>fb_id = 1, fb_source = JStr (js ''discord''),
          fb_content = JStr (js ''Deploys are too slow''), fb_author = JNull,
          fb_sentiment = JStr (js ''negative''), fb_urgency = JStr (js ''medium''),
          fb_themes = JStr (js ''performance''),
          fb_created_at = js ''2026-01-01 09:00:00'',
          fb_processed_at = JStr (js ''2026-01-01 09:00:00'')\<rparr>],
      digests = [], ai_calls = []\<rparr>"




section \<open>The regular expression\<close>

lemma upto_last_close_None: "upto_last_close cs = None \<longleftrightarrow> ch CHR ''}'' \<notin> set cs"
  by (induction cs) (auto split: option.splits)

lemma upto_last_close_Some:
  "upto_last_close cs = Some m \<longleftrightarrow>
     (\<exists>mid post. cs = mid @ ch CHR ''}'' # post \<and> ch CHR ''}'' \<notin> set post \<and> m = mid @ [ch CHR ''}''])"
proof (induction cs arbitrary: m)
  case Nil
  then show ?case by simp
next
  case (Cons c cs)
  show ?case
  proof (cases "upto_last_close cs")
    case None
    then have no: "ch CHR ''}'' \<notin> set cs" by (simp add: upto_last_close_None)
    show ?thesis
    proof
      assume "upto_last_close (c # cs) = Some m"
      with None have "c = ch CHR ''}''" and "m = [c]" by (auto split: if_splits)
      with no show "\<exists>mid post. c # cs = mid @ ch CHR ''}'' # post \<and> ch CHR ''}'' \<notin> set post \<and> m = mid @ [ch CHR ''}'']"
        by (intro exI[of _ "[]"] exI[of _ cs]) simp
    next
      assume "\<exists>mid post. c # cs = mid @ ch CHR ''}'' # post \<and> ch CHR ''}'' \<notin> set post \<and> m = mid @ [ch CHR ''}'']"
      then obtain mid post where eq: "c # cs = mid @ ch CHR ''}'' # post" and m: "m = mid @ [ch CHR ''}'']"
        by blast
      from eq no have "mid = []" by (cases mid) auto
      with eq m None show "upto_last_close (c # cs) = Some m" by simp
    qed
  next
    case (Some m')
    with Cons.IH[of m'] obtain mid post where
      cs: "cs = mid @ ch CHR ''}'' # post" and np: "ch CHR ''}'' \<notin> set post" and m': "m' = mid @ [ch CHR ''}'']"
      by blast
    show ?thesis
    proof
      assume "upto_last_close (c # cs) = Some m"
      with Some have "m = c # m'" by simp
      with cs np m' show "\<exists>mid post. c # cs = mid @ ch CHR ''}'' # post \<and> ch CHR ''}'' \<notin> set post \<and> m = mid @ [ch CHR ''}'']"
        by (intro exI[of _ "c # mid"] exI[of _ post]) simp
    next
      assume "\<exists>mid post. c # cs = mid @ ch CHR ''}'' # post \<and> ch CHR ''}'' \<notin> set post \<and> m = mid @ [ch CHR ''}'']"
      then obtain mid2 post2 where eq: "c # cs = mid2 @ ch CHR ''}'' # post2"
        and np2: "ch CHR ''}'' \<notin> set post2" and m: "m = mid2 @ [ch CHR ''}'']"
        by blast
      have "mid2 \<noteq> []"
      proof
        assume "mid2 = []"
        with eq have "cs = post2" by simp
        with np2 cs show False by simp
      qed
      then obtain mid3 where mid2: "mid2 = c # mid3" using eq by (cases mid2) auto
      with eq have "cs = mid3 @ ch CHR ''}'' # post2" by simp
      with np2 Cons.IH[of "mid3 @ [ch CHR ''}'']"] have "upto_last_close cs = Some (mid3 @ [ch CHR ''}''])"
        by blast
      with m mid2 show "upto_last_close (c # cs) = Some m" by simp
    qed
  qed
qed

lemma regex_match_None:
  "regex_match t = None \<longleftrightarrow>
     \<not> (\<exists>pre mid post. t = pre @ ch CHR ''{'' # mid @ ch CHR ''}'' # post)"
proof (induction t)
  case Nil
  then show ?case by simp
next
  case (Cons c cs)
  have split_rb: "\<And>xs. ch CHR ''}'' \<in> set xs \<longleftrightarrow> (\<exists>mid post. xs = mid @ ch CHR ''}'' # post)"
    by (metis in_set_conv_decomp)
  show ?case
  proof (cases "c = ch CHR ''{''")
    case True
    show ?thesis
    proof (cases "upto_last_close cs")
      case None
      then have no: "ch CHR ''}'' \<notin> set cs" by (simp add: upto_last_close_None)
      have tail: "\<not> (\<exists>pre mid post. cs = pre @ ch CHR ''{'' # mid @ ch CHR ''}'' # post)"
        using no by auto
      have "\<not> (\<exists>pre mid post. c # cs = pre @ ch CHR ''{'' # mid @ ch CHR ''}'' # post)"
      proof
        assume "\<exists>pre mid post. c # cs = pre @ ch CHR ''{'' # mid @ ch CHR ''}'' # post"
        then obtain pre mid post where eq: "c # cs = pre @ ch CHR ''{'' # mid @ ch CHR ''}'' # post" by blast
        then have "ch CHR ''}'' \<in> set cs" by (cases pre) auto
        with no show False by simp
      qed
      moreover have "regex_match (c # cs) = None" using True None Cons.IH tail by simp
      ultimately show ?thesis by simp
    next
      case (Some m)
      then have "ch CHR ''}'' \<in> set cs" using upto_last_close_None[of cs] by auto
      then obtain mid post where "cs = mid @ ch CHR ''}'' # post" using split_rb by blast
      then have "c # cs = [] @ ch CHR ''{'' # mid @ ch CHR ''}'' # post" using True by simp
      then have "\<exists>pre mid post. c # cs = pre @ ch CHR ''{'' # mid @ ch CHR ''}'' # post" by blast
      moreover have "regex_match (c # cs) \<noteq> None" using True Some by simp
      ultimately show ?thesis by simp
    qed
  next
    case False
    have "(\<exists>pre mid post. c # cs = pre @ ch CHR ''{'' # mid @ ch CHR ''}'' # post)
          \<longleftrightarrow> (\<exists>pre mid post. cs = pre @ ch CHR ''{'' # mid @ ch CHR ''}'' # post)"
    proof
      assume "\<exists>pre mid post. c # cs = pre @ ch CHR ''{'' # mid @ ch CHR ''}'' # post"
      then obtain pre mid post where eq: "c # cs = pre @ ch CHR ''{'' # mid @ ch CHR ''}'' # post" by blast
      with False obtain pre' where "pre = c # pre'" by (cases pre) auto
      with eq have "cs = pre' @ ch CHR ''{'' # mid @ ch CHR ''}'' # post" by simp
      then show "\<exists>pre mid post. cs = pre @ ch CHR ''{'' # mid @ ch CHR ''}'' # post" by blast
    next
      assume "\<exists>pre mid post. cs = pre @ ch CHR ''{'' # mid @ ch CHR ''}'' # post"
      then obtain pre mid post where "cs = pre @ ch CHR ''{'' # mid @ ch CHR ''}'' # post" by blast
      then have "c # cs = (c # pre) @ ch CHR ''{'' # mid @ ch CHR ''}'' # post" by simp
      then show "\<exists>pre mid post. c # cs = pre @ ch CHR ''{'' # mid @ ch CHR ''}'' # post" by blast
    qed
    with False Cons.IH show ?thesis by simp
  qed
qed

lemma regex_match_Some:
  "regex_match t = Some m \<longleftrightarrow>
     (\<exists>pre mid post. t = pre @ ch CHR ''{'' # mid @ ch CHR ''}'' # post \<and>
        ch CHR ''{'' \<notin> set pre \<and> ch CHR ''}'' \<notin> set post \<and>
        m = ch CHR ''{'' # mid @ [ch CHR ''}''])"
  (is "?L t \<longleftrightarrow> ?R t")
proof (induction t)
  case Nil
  then show ?case by simp
next
  case (Cons c cs)
  show ?case
  proof (cases "c = ch CHR ''{''")
    case True
    show ?thesis
    proof (cases "upto_last_close cs")
      case None
      then have no: "ch CHR ''}'' \<notin> set cs" by (simp add: upto_last_close_None)
      have "regex_match cs = None"
        using no by (subst regex_match_None) auto
      then have l: "regex_match (c # cs) = None" using True None by simp
      have "\<not> ?R (c # cs)"
      proof
        assume "?R (c # cs)"
        then obtain pre mid post where eq: "c # cs = pre @ ch CHR ''{'' # mid @ ch CHR ''}'' # post" by blast
        then have "ch CHR ''}'' \<in> set cs" by (cases pre) auto
        with no show False by simp
      qed
      with l show ?thesis by simp
    next
      case (Some m')
      then obtain mid post where cs: "cs = mid @ ch CHR ''}'' # post"
        and np: "ch CHR ''}'' \<notin> set post" and m': "m' = mid @ [ch CHR ''}'']"
        using upto_last_close_Some[of cs m'] by blast
      have l: "regex_match (c # cs) = Some (c # m')" using True Some by simp
      show ?thesis
      proof
        assume "regex_match (c # cs) = Some m"
        with l have "m = c # m'" by simp
        with cs np m' True show "?R (c # cs)"
          by (intro exI[of _ "[]"] exI[of _ mid] exI[of _ post]) simp
      next
        assume "?R (c # cs)"
        then obtain pre mid2 post2 where eq: "c # cs = pre @ ch CHR ''{'' # mid2 @ ch CHR ''}'' # post2"
          and npre: "ch CHR ''{'' \<notin> set pre" and np2: "ch CHR ''}'' \<notin> set post2"
          and m: "m = ch CHR ''{'' # mid2 @ [ch CHR ''}'']" by blast
        from eq npre True have "pre = []" by (cases pre) auto
        with eq have "cs = mid2 @ ch CHR ''}'' # post2" by simp
        with np2 have "upto_last_close cs = Some (mid2 @ [ch CHR ''}''])"
          using upto_last_close_Some[of cs "mid2 @ [ch CHR ''}'']"] by blast
        with Some m' have "m' = mid2 @ [ch CHR ''}'']" by simp
        with l m True show "regex_match (c # cs) = Some m" by simp
      qed
    qed
  next
    case False
    have "?R (c # cs) \<longleftrightarrow> ?R cs"
    proof
      assume "?R (c # cs)"
      then obtain pre mid post where eq: "c # cs = pre @ ch CHR ''{'' # mid @ ch CHR ''}'' # post"
        and npre: "ch CHR ''{'' \<notin> set pre" and np: "ch CHR ''}'' \<notin> set post"
        and m: "m = ch CHR ''{'' # mid @ [ch CHR ''}'']" by blast
      from eq False obtain pre' where pre: "pre = c # pre'" by (cases pre) auto
      with eq have "cs = pre' @ ch CHR ''{'' # mid @ ch CHR ''}'' # post" by simp
      moreover from pre npre have "ch CHR ''{'' \<notin> set pre'" by simp
      ultimately show "?R cs" using np m by blast
    next
      assume "?R cs"
      then obtain pre mid post where eq: "cs = pre @ ch CHR ''{'' # mid @ ch CHR ''}'' # post"
        and npre: "ch CHR ''{'' \<notin> set pre" and np: "ch CHR ''}'' \<notin> set post"
        and m: "m = ch CHR ''{'' # mid @ [ch CHR ''}'']" by blast
      from eq have "c # cs = (c # pre) @ ch CHR ''{'' # mid @ ch CHR ''}'' # post" by simp
      moreover from npre False have "ch CHR ''{'' \<notin> set (c # pre)" by auto
      ultimately show "?R (c # cs)" using np m by blast
    qed
    with False Cons.IH show ?thesis by simp
  qed
qed

text \<open>
  Claim C7, as amended. For every model response text, the extraction step
  \<^verbatim>\<open>text.match(/\{[\s\S]*\}/)\<close> selects the span that runs from the first opening brace
  of the text to its last closing brace after it, whatever lies between them; it
  yields no match exactly when no closing brace follows an opening brace.
\<close>

theorem regex_match_first_open_to_last_close:
  "(regex_match t = Some m \<longleftrightarrow>
      (\<exists>pre mid post. t = pre @ ch CHR ''{'' # mid @ ch CHR ''}'' # post \<and>
         ch CHR ''{'' \<notin> set pre \<and> ch CHR ''}'' \<notin> set post \<and>
         m = ch CHR ''{'' # mid @ [ch CHR ''}''])) \<and>
   (regex_match t = None \<longleftrightarrow>
      \<not> (\<exists>pre mid post. t = pre @ ch CHR ''{'' # mid @ ch CHR ''}'' # post))"
  using regex_match_Some [of t m] regex_match_None [of t] by blast

theorem regex_match_first_open_to_last_close_witness:
  \<open>regex_match (js ''ok {"a":1} and {"b":2}.'') = Some (js ''{"a":1} and {"b":2}'') \<and>
   (\<exists>pre mid post.
      js ''ok {"a":1} and {"b":2}.'' = pre @ ch CHR ''{'' # mid @ ch CHR ''}'' # post \<and>
      ch CHR ''{'' \<notin> set pre \<and> ch CHR ''}'' \<notin> set post \<and>
      js ''{"a":1} and {"b":2}'' = ch CHR ''{'' # mid @ [ch CHR ''}''])\<close>
proof -
  have m: \<open>regex_match (js ''ok {"a":1} and {"b":2}.'') = Some (js ''{"a":1} and {"b":2}'')\<close>
    by code_simp
  from regex_match_first_open_to_last_close
         [of \<open>js ''ok {"a":1} and {"b":2}.''\<close> \<open>js ''{"a":1} and {"b":2}''\<close>] m
  show ?thesis by blast
qed

text \<open>
  Claim C7 as stated fails: in a text with two JSON objects the first object is not
  what is selected. The match runs on to the closing brace of the second object, and
  \<^verbatim>\<open>JSON.parse\<close> rejects it, although the first object alone parses.
\<close>

theorem regex_match_two_objects_counterexample:
  \<open>regex_match (js ''{"a":1} {"b":2}'') = Some (js ''{"a":1} {"b":2}'') \<and>
   regex_match (js ''{"a":1} {"b":2}'') \<noteq> Some (js ''{"a":1}'') \<and>
   json_parse (js ''{"a":1}'') = Inr (JObj [(js ''a'', JNum (Dec False [1] 1))]) \<and>
   json_parse (js ''{"a":1} {"b":2}'') = Inl SyntaxError \<and>
   parse_answer (Inr (JObj [(js ''response'', JStr (js ''{"a":1} {"b":2}''))])) = Inl SyntaxError\<close>
  by code_simp

section \<open>The classifier\<close>







lemma analyseFeedback_string:
  "analyseFeedback e (JStr content) w =
     (Inr (case analyse_try (AI e (analyse_request content)) of
             Inr (Some a) \<Rightarrow> a | Inr None \<Rightarrow> fallback_analysis | Inl err \<Rightarrow> fallback_analysis),
      w\<lparr>ai_calls := ai_calls w @ [analyse_request content]\<rparr>)"
  by (simp add: analyseFeedback_def Let_def split: sum.splits option.splits)






section \<open>Submitting feedback\<close>

lemma js_get_object: "js_get (JObj kvs) k = Inr (property kvs k)"
  by (simp add: property_def)

lemma truthy_js_or: "truthy d \<Longrightarrow> truthy (js_or v d)"
  by (simp add: js_or_def)

lemma analyse_try_truthy:
  "analyse_try answer = Inr (Some a) \<Longrightarrow>
   truthy (sentiment a) \<and> truthy (urgency a) \<and> truthy (themes a)"
  by (auto simp: analyse_try_def js_def truthy_js_or split: sum.splits option.splits)

lemma fallback_truthy:
  "truthy (sentiment fallback_analysis) \<and> truthy (urgency fallback_analysis) \<and>
   truthy (themes fallback_analysis)"
  by (simp add: fallback_analysis_def js_def)

lemma analyseFeedback_truthy:
  assumes "analyseFeedback e content w = (Inr a, w1)"
  shows "truthy (sentiment a) \<and> truthy (urgency a) \<and> truthy (themes a)"
  using assms analyse_try_truthy fallback_truthy
  by (auto simp: analyseFeedback_def Let_def split: sum.splits option.splits)

lemma bind_truthy_not_null:
  "truthy v \<Longrightarrow> d1_bind_value v = Inr b \<Longrightarrow> b \<noteq> JNull \<and> b \<noteq> JUndefined"
  by (cases v) (auto split: if_splits)

lemma bindable_iff: "bindable v \<longleftrightarrow> (\<exists>b. d1_bind_value v = Inr b)"
  by (auto simp: bindable_def split: sum.splits)

lemma handleAddFeedback_body:
  assumes "json req = Inr (JObj kvs)"
    and "truthy (property kvs (js ''source''))" and "truthy (property kvs (js ''content''))"
  shows "handleAddFeedback req e w =
     (case analyseFeedback e (property kvs (js ''content'')) w of
        (Inl err, w1) \<Rightarrow> (Inl err, w1)
      | (Inr a, w1) \<Rightarrow>
          (case insert_feedback e
                  [property kvs (js ''source''), property kvs (js ''content''),
                   js_or (property kvs (js ''author'')) JNull, sentiment a, urgency a, themes a] w1 of
             (Inl err, w2) \<Rightarrow> (Inl err, w2)
           | (Inr i, w2) \<Rightarrow>
               (Inr \<lparr>status = 200,
                     body = JObj [(js ''success'', JBool True),
                                  (js ''id'', JNum (jsnum_of_nat i)),
                                  (js ''analysis'', analysis_object a)]\<rparr>,
                w2)))"
  using assms by (simp add: handleAddFeedback_def js_get_object del: js_get.simps)

lemma insert_feedback_result:
  "insert_feedback e [src, cont, auth, sent, urg, thm] w = (Inr i, w2) \<longleftrightarrow>
     (\<exists>src' cont' auth' sent' urg' thm'.
        d1_bind_value src = Inr src' \<and> d1_bind_value cont = Inr cont' \<and>
        d1_bind_value auth = Inr auth' \<and> d1_bind_value sent = Inr sent' \<and>
        d1_bind_value urg = Inr urg' \<and> d1_bind_value thm = Inr thm' \<and>
        src' \<noteq> JNull \<and> cont' \<noteq> JNull \<and>
        i = next_id (map fb_id (feedback w)) \<and>
        w2 = w\<lparr>feedback := feedback w @
               [\<lparr>fb_id = i, fb_source = src', fb_content = cont', fb_author = auth',
                 fb_sentiment = sent', fb_urgency = urg', fb_themes = thm',
                 fb_created_at = CURRENT_TIMESTAMP e,
                 fb_processed_at = JStr (CURRENT_TIMESTAMP e)\<rparr>]\<rparr>)"
  by (auto simp: insert_feedback_def Let_def split: sum.splits)

lemma insert_feedback_error_keeps_world:
  "insert_feedback e args w = (Inl err, w2) \<Longrightarrow> w2 = w"
  by (auto simp: insert_feedback_def Let_def split: sum.splits list.splits if_splits)







text \<open>
  What holds of claim C1: a submission with a non-empty source and content (and an
  author that is absent or can be bound) is persisted as exactly one row, with
  \<^verbatim>\<open>sentiment\<close>, \<^verbatim>\<open>urgency\<close> and \<^verbatim>\<open>themes\<close> not null, whenever \<^verbatim>\<open>bind\<close> accepts the three
  values of the classification; the fallback triple is always accepted.
\<close>

lemma bind_truthy_bindable_not_null:
  assumes "truthy v" and "bindable v"
  shows "\<exists>b. d1_bind_value v = Inr b \<and> b \<noteq> JNull"
  using assms bind_truthy_not_null by (auto simp: bindable_iff)

lemma handleAddFeedback_persists_when_bindable:
  assumes "json req = Inr (JObj kvs)"
    and "map_of kvs (js ''source'') = Some (JStr s)" and "s \<noteq> []"
    and "map_of kvs (js ''content'') = Some (JStr c)" and "c \<noteq> []"
    and "bindable (js_or (property kvs (js ''author'')) JNull)"
    and "a = (case analyse_try (AI e (analyse_request c)) of Inr (Some x) \<Rightarrow> x
               | Inr None \<Rightarrow> fallback_analysis | Inl err \<Rightarrow> fallback_analysis)"
    and "bindable (sentiment a)" and "bindable (urgency a)" and "bindable (themes a)"
  shows "\<exists>row resp. handleAddFeedback req e w =
            (Inr resp, w\<lparr>ai_calls := ai_calls w @ [analyse_request c],
                          feedback := feedback w @ [row]\<rparr>) \<and>
           status resp = 200 \<and>
           fb_sentiment row \<noteq> JNull \<and> fb_urgency row \<noteq> JNull \<and> fb_themes row \<noteq> JNull"
proof -
  have ps: "property kvs (js ''source'') = JStr s" and pc: "property kvs (js ''content'') = JStr c"
    using assms(2,4) by (simp_all add: property_def)
  define w1 where "w1 = w\<lparr>ai_calls := ai_calls w @ [analyse_request c]\<rparr>"
  have af: "analyseFeedback e (JStr c) w = (Inr a, w1)"
    by (simp add: analyseFeedback_string assms(7) w1_def)
  then have tr: "truthy (sentiment a)" "truthy (urgency a)" "truthy (themes a)"
    using analyseFeedback_truthy by blast+
  obtain se where se: "d1_bind_value (sentiment a) = Inr se" "se \<noteq> JNull"
    using bind_truthy_bindable_not_null[OF tr(1) assms(8)] by blast
  obtain ur where ur: "d1_bind_value (urgency a) = Inr ur" "ur \<noteq> JNull"
    using bind_truthy_bindable_not_null[OF tr(2) assms(9)] by blast
  obtain th where th: "d1_bind_value (themes a) = Inr th" "th \<noteq> JNull"
    using bind_truthy_bindable_not_null[OF tr(3) assms(10)] by blast
  obtain au where au: "d1_bind_value (js_or (property kvs (js ''author'')) JNull) = Inr au"
    using assms(6) by (auto simp: bindable_iff)
  let ?row = "\<lparr>fb_id = next_id (map fb_id (feedback w1)), fb_source = JStr s, fb_content = JStr c,
                fb_author = au, fb_sentiment = se, fb_urgency = ur, fb_themes = th,
                fb_created_at = CURRENT_TIMESTAMP e,
                fb_processed_at = JStr (CURRENT_TIMESTAMP e)\<rparr>"
  have ins: "insert_feedback e [JStr s, JStr c, js_or (property kvs (js ''author'')) JNull,
                sentiment a, urgency a, themes a] w1
             = (Inr (next_id (map fb_id (feedback w1))), w1\<lparr>feedback := feedback w1 @ [?row]\<rparr>)"
    unfolding insert_feedback_result using se ur th au by simp
  let ?resp = "\<lparr>status = 200,
                body = JObj [(js ''success'', JBool True),
                             (js ''id'', JNum (jsnum_of_nat (next_id (map fb_id (feedback w1))))),
                             (js ''analysis'', analysis_object a)]\<rparr>"
  have "handleAddFeedback req e w = (Inr ?resp, w1\<lparr>feedback := feedback w1 @ [?row]\<rparr>)"
    using handleAddFeedback_body[OF assms(1), of e w] assms(3,5) ps pc af ins by simp
  moreover have "w1\<lparr>feedback := feedback w1 @ [?row]\<rparr> =
       w\<lparr>ai_calls := ai_calls w @ [analyse_request c], feedback := feedback w @ [?row]\<rparr>"
    by (simp add: w1_def)
  ultimately show ?thesis using se ur th by (intro exI[of _ ?row] exI[of _ ?resp]) simp
qed

lemma fallback_bindable:
  "bindable (sentiment fallback_analysis) \<and> bindable (urgency fallback_analysis) \<and>
   bindable (themes fallback_analysis)"
  by (simp add: fallback_analysis_def bindable_def)

text \<open>
  Claim C1 does not hold of the code. The submission below has a non-empty source
  and a non-empty content, and the model answers with a JSON object whose \<^verbatim>\<open>themes\<close>
  are an array of strings. \<^verbatim>\<open>analyseFeedback\<close> passes the array on, \<^verbatim>\<open>bind\<close> rejects
  it, the handler throws (\<^verbatim>\<open>fetch\<close> answers 500), and no feedback row is persisted.
\<close>

theorem handleAddFeedback_array_themes_not_persisted:
  \<open>(case handleAddFeedback (submission (js ''discord'') (js ''Deploys are too slow''))
           (answering (js ''{"sentiment":"negative","urgency":"high","themes":["performance","billing"]}''))
           empty_world of
      (r, w') \<Rightarrow> r = Inl D1_TYPE_ERROR \<and> feedback w' = [] \<and> length (ai_calls w') = 1)\<close>
  by code_simp

theorem handleAddFeedback_array_themes_not_persisted_witness:
  \<open>fst (handleAddFeedback (submission (js ''discord'') (js ''Deploys are too slow''))
     (answering (js ''{"sentiment":"negative","urgency":"high","themes":["performance","billing"]}''))
     empty_world) = Inl D1_TYPE_ERROR \<and>
   feedback (snd (handleAddFeedback (submission (js ''discord'') (js ''Deploys are too slow''))
     (answering (js ''{"sentiment":"negative","urgency":"high","themes":["performance","billing"]}''))
     empty_world)) = [] \<and>
   status (fst (fetch_catch (handleAddFeedback (submission (js ''discord'') (js ''Deploys are too slow''))
     (answering (js ''{"sentiment":"negative","urgency":"high","themes":["performance","billing"]}''))
     empty_world))) = 500\<close>
  using handleAddFeedback_array_themes_not_persisted
  by (simp add: case_prod_unfold fetch_catch_def)




section \<open>Generating a digest\<close>

lemma order_by_desc_Nil: "order_by_desc key [] = []"
  by (simp add: order_by_desc_def)

text \<open>
  Claim C4. When the feedback table holds no row, \<^verbatim>\<open>POST /api/digest/generate\<close> answers
  with status 400 and an error body, and the state is the one before the request: no
  digest row is inserted and no model call is made.
\<close>

theorem handleGenerateDigest_no_feedback_400:
  assumes "feedback w = []"
  shows "handleGenerateDigest e w =
           (Inr \<lparr>status = 400, body = JObj [(js ''error'', JStr (js ''No feedback to analyse''))]\<rparr>,
            w)"
  using assms by (simp add: handleGenerateDigest_def select_recent_feedback_def order_by_desc_Nil)

theorem handleGenerateDigest_no_feedback_400_witness:
  "handleGenerateDigest
     \<lparr>AI = (\<lambda>r. Inl InferenceError), CURRENT_TIMESTAMP = js ''2026-01-01 00:00:00''\<rparr>
     \<lparr>feedback = [], digests = [], ai_calls = []\<rparr> =
   (Inr \<lparr>status = 400, body = JObj [(js ''error'', JStr (js ''No feedback to analyse''))]\<rparr>,
    \<lparr>feedback = [], digests = [], ai_calls = []\<rparr>)"
  by (rule handleGenerateDigest_no_feedback_400) simp

text \<open>
  The rows of the feedback table hold bound values, and the prompt of the digest can be
  built from such rows.
\<close>

lemma bind_storable: "d1_bind_value v = Inr b \<Longrightarrow> storable b"
  by (cases v) (auto split: if_splits)

lemma is_byte_to_string: "is_byte v \<Longrightarrow> v \<noteq> JUndefined \<and> v \<noteq> JNull \<and> (\<exists>s. js_to_string v = Inr s)"
  by (cases v) auto

lemma bytes_to_string: "list_all is_byte xs \<Longrightarrow> \<exists>ts. to_string_elems xs = Inr ts"
proof (induction xs)
  case Nil
  then show ?case by simp
next
  case (Cons x xs)
  then obtain ts where "to_string_elems xs = Inr ts" by auto
  moreover from Cons.prems obtain s where "x \<noteq> JUndefined" "x \<noteq> JNull" "js_to_string x = Inr s"
    using is_byte_to_string[of x] by auto
  ultimately show ?case by simp
qed

lemma storable_to_string: "storable v \<Longrightarrow> \<exists>s. js_to_string v = Inr s"
proof (cases v)
  case (JArr xs)
  assume "storable v"
  with JArr obtain ts where "to_string_elems xs = Inr ts" using bytes_to_string by auto
  with JArr show ?thesis by simp
qed auto

lemma feedback_line_ok: "feedback_row_ok f \<Longrightarrow> \<exists>l. feedback_line f = Inr l"
proof -
  assume ok: "feedback_row_ok f"
  then obtain so se ur co where "js_to_string (fb_source f) = Inr so"
    "js_to_string (fb_sentiment f) = Inr se" "js_to_string (fb_urgency f) = Inr ur"
    "js_to_string (fb_content f) = Inr co"
    unfolding feedback_row_ok_def using storable_to_string by metis
  then show ?thesis by (simp add: feedback_line_def)
qed

lemma feedback_lines_ok: "list_all feedback_row_ok fs \<Longrightarrow> \<exists>ls. feedback_lines fs = Inr ls"
proof (induction fs)
  case Nil
  then show ?case by simp
next
  case (Cons f fs)
  then obtain ls where "feedback_lines fs = Inr ls" by auto
  moreover from Cons.prems obtain l where "feedback_line f = Inr l"
    using feedback_line_ok[of f] by auto
  ultimately show ?case by simp
qed

lemma set_order_by_desc: "set (order_by_desc key rows) = set rows"
  by (simp add: order_by_desc_def)

lemma length_order_by_desc: "length (order_by_desc key rows) = length rows"
  by (simp add: order_by_desc_def)

lemma length_select_recent_feedback:
  "length (select_recent_feedback w) = min (length (feedback w)) 50"
  by (simp add: select_recent_feedback_def length_order_by_desc min.commute)

lemma select_recent_feedback_ok:
  "list_all feedback_row_ok (feedback w) \<Longrightarrow> list_all feedback_row_ok (select_recent_feedback w)"
  unfolding select_recent_feedback_def list_all_iff
  using set_order_by_desc[of fb_created_at "feedback w"] by (auto dest: in_set_takeD)

lemma digest_request_ok:
  assumes "list_all feedback_row_ok (feedback w)"
  shows "\<exists>req. digest_request (select_recent_feedback w) = Inr req"
  using feedback_lines_ok[OF select_recent_feedback_ok[OF assms]]
  by (auto simp: digest_request_def)

lemma insert_digest_ok:
  assumes "d1_bind_value summ = Inr su" and "su \<noteq> JNull"
  shows "insert_digest e [summ, JStr tt, JStr ui, JStr sb] cnt w =
     (Inr (next_id (map dg_id (digests w))),
      w\<lparr>digests := digests w @
           [\<lparr>dg_id = next_id (map dg_id (digests w)), dg_summary = su, dg_top_themes = JStr tt,
             dg_urgent_items = JStr ui, dg_sentiment_breakdown = JStr sb,
             dg_feedback_count = cnt, dg_created_at = CURRENT_TIMESTAMP e\<rparr>]\<rparr>)"
  using assms by (simp add: insert_digest_def Let_def)

lemma handleGenerateDigest_persists:
  assumes "feedback w \<noteq> []"
    and "digest_request (select_recent_feedback w) = Inr req"
    and "digestData_of (AI e req) = JObj kvs"
    and "d1_bind_value (property kvs (js ''summary'')) = Inr su" and "su \<noteq> JNull"
    and "stringify (property kvs (js ''top_themes'')) = Some tt"
    and "stringify (property kvs (js ''urgent_items'')) = Some ui"
    and "stringify (property kvs (js ''sentiment_breakdown'')) = Some sb"
  shows "handleGenerateDigest e w =
     (Inr \<lparr>status = 200,
           body = JObj [(js ''success'', JBool True), (js ''digest'', JObj kvs),
                        (js ''feedback_count'',
                           JNum (jsnum_of_nat (min (length (feedback w)) 50)))]\<rparr>,
      w\<lparr>ai_calls := ai_calls w @ [req],
        digests := digests w @
           [\<lparr>dg_id = next_id (map dg_id (digests w)), dg_summary = su, dg_top_themes = JStr tt,
             dg_urgent_items = JStr ui, dg_sentiment_breakdown = JStr sb,
             dg_feedback_count = min (length (feedback w)) 50,
             dg_created_at = CURRENT_TIMESTAMP e\<rparr>]\<rparr>)"
proof -
  have n: "length (select_recent_feedback w) \<noteq> 0"
    using assms(1) by (simp add: length_select_recent_feedback)
  have ins: "insert_digest e [property kvs (js ''summary''), JStr tt, JStr ui, JStr sb]
               (min (length (feedback w)) 50) (w\<lparr>ai_calls := ai_calls w @ [req]\<rparr>) =
     (Inr (next_id (map dg_id (digests w))),
      w\<lparr>ai_calls := ai_calls w @ [req],
        digests := digests w @
           [\<lparr>dg_id = next_id (map dg_id (digests w)), dg_summary = su, dg_top_themes = JStr tt,
             dg_urgent_items = JStr ui, dg_sentiment_breakdown = JStr sb,
             dg_feedback_count = min (length (feedback w)) 50,
             dg_created_at = CURRENT_TIMESTAMP e\<rparr>]\<rparr>)"
    using insert_digest_ok[OF assms(4,5)] by simp
  show ?thesis
    unfolding handleGenerateDigest_def Let_def
    using n assms(2,3,6,7,8) ins
    by (simp add: js_get_object json_stringify_def length_select_recent_feedback del: js_get.simps)
qed


lemma default_digest_fields:
  \<open>\<exists>kvs. default_digest = JObj kvs \<and>
     d1_bind_value (property kvs (js ''summary'')) = Inr (JStr (js ''Unable to generate summary'')) \<and>
     stringify (property kvs (js ''top_themes'')) = Some (js ''[]'') \<and>
     stringify (property kvs (js ''urgent_items'')) = Some (js ''[]'') \<and>
     stringify (property kvs (js ''sentiment_breakdown'')) =
       Some (js ''{"positive":0,"neutral":0,"negative":0}'')\<close>
proof -
  let ?kvs = "[(js ''summary'', JStr (js ''Unable to generate summary'')),
           (js ''top_themes'', JArr []),
           (js ''urgent_items'', JArr []),
           (js ''sentiment_breakdown'',
              JObj [(js ''positive'', JNum (Dec False [] 0)), (js ''neutral'', JNum (Dec False [] 0)),
                    (js ''negative'', JNum (Dec False [] 0))]),
           (js ''recommendations'', JArr [])]"
  have 1: "default_digest = JObj ?kvs" by (simp add: default_digest_def)
  have 2: "d1_bind_value (property ?kvs (js ''summary'')) = Inr (JStr (js ''Unable to generate summary''))"
    by code_simp
  have 3: "stringify (property ?kvs (js ''top_themes'')) = Some (js ''[]'')" by code_simp
  have 4: "stringify (property ?kvs (js ''urgent_items'')) = Some (js ''[]'')" by code_simp
  have 5: \<open>stringify (property ?kvs (js ''sentiment_breakdown'')) =
       Some (js ''{"positive":0,"neutral":0,"negative":0}'')\<close> by code_simp
  from 1 2 3 4 5 show ?thesis by blast
qed

lemma digestData_default:
  "(\<forall>parsed. parse_answer answer \<noteq> Inr (Some parsed)) \<Longrightarrow> digestData_of answer = default_digest"
  by (auto simp: digestData_of_def split: sum.splits option.splits)

lemma handleAddFeedback_keeps_rows_ok:
  assumes "list_all feedback_row_ok (feedback w)"
  shows "list_all feedback_row_ok (feedback (snd (handleAddFeedback req e w)))"
proof -
  have af: "feedback (snd (analyseFeedback e c w)) = feedback w" for c
    by (auto simp: analyseFeedback_def Let_def split: sum.splits option.splits)
  have ins: "list_all feedback_row_ok (feedback (snd (insert_feedback e [a1, a2, a3, a4, a5, a6] w1)))"
    if "list_all feedback_row_ok (feedback w1)" for a1 a2 a3 a4 a5 a6 w1
    using that
    by (auto simp: insert_feedback_def Let_def feedback_row_ok_def bind_storable
             split: sum.splits)
  show ?thesis
    unfolding handleAddFeedback_def
    using assms af ins
    by (auto split: sum.splits prod.splits simp del: js_get.simps)
       (metis snd_conv)+
qed

text \<open>
  Claim C6, as amended. When at least one feedback row exists (and the rows hold bound
  values), digest generation never fails outright if the model call errors or its
  response yields no parsed JSON: the default digest object, with the placeholder
  summary \<^verbatim>\<open>Unable to generate summary\<close>, empty \<^verbatim>\<open>top_themes\<close> and \<^verbatim>\<open>urgent_items\<close>
  arrays, all-zero sentiment counts and empty recommendations, is returned with status
  200 and is persisted as one new digest row.
\<close>

theorem handleGenerateDigest_degrades_to_default:
  assumes "feedback w \<noteq> []" and "list_all feedback_row_ok (feedback w)"
  shows "\<exists>req. digest_request (select_recent_feedback w) = Inr req \<and>
     ((\<forall>parsed. parse_answer (AI e req) \<noteq> Inr (Some parsed)) \<longrightarrow>
      handleGenerateDigest e w =
        (Inr \<lparr>status = 200,
              body = JObj [(js ''success'', JBool True), (js ''digest'', default_digest),
                           (js ''feedback_count'',
                              JNum (jsnum_of_nat (min (length (feedback w)) 50)))]\<rparr>,
         w\<lparr>ai_calls := ai_calls w @ [req],
           digests := digests w @
             [\<lparr>dg_id = next_id (map dg_id (digests w)),
               dg_summary = JStr (js ''Unable to generate summary''),
               dg_top_themes = JStr (js ''[]''),
               dg_urgent_items = JStr (js ''[]''),
               dg_sentiment_breakdown = JStr (js ''{\"positive\":0,\"neutral\":0,\"negative\":0}''),
               dg_feedback_count = min (length (feedback w)) 50,
               dg_created_at = CURRENT_TIMESTAMP e\<rparr>]\<rparr>))"
proof -
  from digest_request_ok[OF assms(2)] obtain req where
    req: "digest_request (select_recent_feedback w) = Inr req" by blast
  from default_digest_fields obtain kvs where k: "default_digest = JObj kvs"
    and b: "d1_bind_value (property kvs (js ''summary'')) = Inr (JStr (js ''Unable to generate summary''))"
    and t: "stringify (property kvs (js ''top_themes'')) = Some (js ''[]'')"
    and u: "stringify (property kvs (js ''urgent_items'')) = Some (js ''[]'')"
    and sb: "stringify (property kvs (js ''sentiment_breakdown'')) =
       Some (js ''{\"positive\":0,\"neutral\":0,\"negative\":0}'')"
    by blast
  have "handleGenerateDigest e w =
        (Inr \<lparr>status = 200,
              body = JObj [(js ''success'', JBool True), (js ''digest'', default_digest),
                           (js ''feedback_count'',
                              JNum (jsnum_of_nat (min (length (feedback w)) 50)))]\<rparr>,
         w\<lparr>ai_calls := ai_calls w @ [req],
           digests := digests w @
             [\<lparr>dg_id = next_id (map dg_id (digests w)),
               dg_summary = JStr (js ''Unable to generate summary''),
               dg_top_themes = JStr (js ''[]''),
               dg_urgent_items = JStr (js ''[]''),
               dg_sentiment_breakdown = JStr (js ''{\"positive\":0,\"neutral\":0,\"negative\":0}''),
               dg_feedback_count = min (length (feedback w)) 50,
               dg_created_at = CURRENT_TIMESTAMP e\<rparr>]\<rparr>)"
    if "\<forall>parsed. parse_answer (AI e req) \<noteq> Inr (Some parsed)"
  proof -
    from that have d: "digestData_of (AI e req) = JObj kvs" using digestData_default k by simp
    show ?thesis
      using handleGenerateDigest_persists[OF assms(1) req d b _ t u sb] k by simp
  qed
  with req show ?thesis by blast
qed

lemma one_feedback_request:
  "digest_request (select_recent_feedback one_feedback_world) =
     Inr \<lparr>model = llama,
          prompt = digest_prompt (js ''[discord] (negative, medium urgency): Deploys are too slow''),
          max_tokens = 800\<rparr>"
  by code_simp

theorem handleGenerateDigest_degrades_to_default_witness:
  \<open>handleGenerateDigest rejecting one_feedback_world =
        (Inr \<lparr>status = 200,
              body = JObj [(js ''success'', JBool True), (js ''digest'', default_digest),
                           (js ''feedback_count'', JNum (jsnum_of_nat 1))]\<rparr>,
         one_feedback_world
          \<lparr>ai_calls := [\<lparr>model = llama,
                          prompt = digest_prompt (js ''[discord] (negative, medium urgency): Deploys are too slow''),
                          max_tokens = 800\<rparr>],
           digests :=
             [\<lparr>dg_id = 1,
               dg_summary = JStr (js ''Unable to generate summary''),
               dg_top_themes = JStr (js ''[]''),
               dg_urgent_items = JStr (js ''[]''),
               dg_sentiment_breakdown = JStr (js ''{"positive":0,"neutral":0,"negative":0}''),
               dg_feedback_count = 1,
               dg_created_at = js ''2026-01-01 10:00:00''\<rparr>]\<rparr>)\<close>
proof -
  let ?req = "\<lparr>model = llama,
      prompt = digest_prompt (js ''[discord] (negative, medium urgency): Deploys are too slow''),
      max_tokens = 800\<rparr>"
  have ne: "feedback one_feedback_world \<noteq> []" by (simp add: one_feedback_world_def)
  have ok: "list_all feedback_row_ok (feedback one_feedback_world)"
    by (simp add: one_feedback_world_def feedback_row_ok_def)
  have rq: "digest_request (select_recent_feedback one_feedback_world) = Inr ?req"
    by (rule one_feedback_request)
  have pa: "\<forall>parsed. parse_answer (AI rejecting ?req) \<noteq> Inr (Some parsed)"
    by (simp add: rejecting_def parse_answer_def)
  from handleGenerateDigest_degrades_to_default[OF ne ok, of rejecting] obtain req where
    a: "digest_request (select_recent_feedback one_feedback_world) = Inr req"
    and b: "(\<forall>parsed. parse_answer (AI rejecting req) \<noteq> Inr (Some parsed)) \<longrightarrow>
      handleGenerateDigest rejecting one_feedback_world =
        (Inr \<lparr>status = 200,
              body = JObj [(js ''success'', JBool True), (js ''digest'', default_digest),
                           (js ''feedback_count'',
                              JNum (jsnum_of_nat (min (length (feedback one_feedback_world)) 50)))]\<rparr>,
         one_feedback_world\<lparr>ai_calls := ai_calls one_feedback_world @ [req],
           digests := digests one_feedback_world @
             [\<lparr>dg_id = next_id (map dg_id (digests one_feedback_world)),
               dg_summary = JStr (js ''Unable to generate summary''),
               dg_top_themes = JStr (js ''[]''),
               dg_urgent_items = JStr (js ''[]''),
               dg_sentiment_breakdown = JStr (js ''{\"positive\":0,\"neutral\":0,\"negative\":0}''),
               dg_feedback_count = min (length (feedback one_feedback_world)) 50,
               dg_created_at = CURRENT_TIMESTAMP rejecting\<rparr>]\<rparr>)"
    by blast
  from a rq have r: "req = ?req" by simp
  have n: "min (length (feedback one_feedback_world)) 50 = 1"
    "next_id (map dg_id (digests one_feedback_world)) = 1"
    "ai_calls one_feedback_world = []" "digests one_feedback_world = []"
    "CURRENT_TIMESTAMP rejecting = js ''2026-01-01 10:00:00''"
    by (simp_all add: one_feedback_world_def next_id_def rejecting_def)
  from b pa r show ?thesis unfolding n by (simp add: next_id_def)
qed

text \<open>
  Claim C6 as stated fails in one detail: the summary of the default digest is not
  empty, it is the text \<^verbatim>\<open>Unable to generate summary\<close>.
\<close>

theorem default_digest_summary_not_empty_counterexample:
  \<open>map dg_summary (digests (snd (handleGenerateDigest rejecting one_feedback_world))) =
     [JStr (js ''Unable to generate summary'')] \<and>
   JStr (js ''Unable to generate summary'') \<noteq> JStr []\<close>
  by code_simp

text \<open>
  Claim C5 does not hold of the code. With one feedback row in the table and a model
  that answers with a JSON object without a \<^verbatim>\<open>summary\<close>, \<^verbatim>\<open>digestData.summary\<close> is
  \<^verbatim>\<open>undefined\<close>, \<^verbatim>\<open>bind\<close> rejects it, the handler throws and no digest row is
  persisted. (\<open>handleGenerateDigest_persists\<close> above is what holds: when the summary can
  be bound and the three other fields are defined, exactly one row is added, and its
  \<^verbatim>\<open>feedback_count\<close> is the number of feedback rows, at most 50.)
\<close>

theorem handleGenerateDigest_no_summary_not_persisted:
  \<open>(case handleGenerateDigest (answering (js ''{"top_themes":["billing"]}'')) one_feedback_world of
      (r, w') \<Rightarrow> r = Inl D1_TYPE_ERROR \<and> digests w' = [])\<close>
  by code_simp

theorem handleGenerateDigest_no_summary_not_persisted_witness:
  \<open>fst (handleGenerateDigest (answering (js ''{"top_themes":["billing"]}'')) one_feedback_world)
     = Inl D1_TYPE_ERROR \<and>
   digests (snd (handleGenerateDigest (answering (js ''{"top_themes":["billing"]}''))
     one_feedback_world)) = []\<close>
  using handleGenerateDigest_no_summary_not_persisted by (simp add: case_prod_unfold)

section \<open>Reading the latest digest\<close>







section \<open>The stored JSON texts of a digest\<close>

subsection \<open>Strings\<close>











subsection \<open>Integer counts\<close>















subsection \<open>Arrays of strings and objects of counts\<close>























end
